theory Spec2Isabelle
  imports Main
begin

section \<open>Data model (src/app/models.py)\<close>

datatype DocumentStatus = QUEUED | PROCESSING | PROCESSED | FAILED

text \<open>The string values of the enumeration, as the class \<open>DocumentStatus\<close> declares them.\<close>

fun status_value :: "DocumentStatus \<Rightarrow> string" where
  "status_value QUEUED = ''queued''"
| "status_value PROCESSING = ''processing''"
| "status_value PROCESSED = ''processed''"
| "status_value FAILED = ''failed''"

text \<open>
  One row of the table \<open>documents\<close>. The column \<open>id\<close> is called \<open>doc_id\<close> here
  (\<open>id\<close> is the identity function of HOL); \<open>upload_time\<close> is a timestamp, kept as
  an integer (seconds of the database server's clock).
\<close>

record Document =
  doc_id :: int
  filename :: string
  s3_path :: string
  upload_time :: int
  status :: DocumentStatus

text \<open>
  The database: the rows of \<open>documents\<close> in insertion order, the next value of the
  primary-key sequence, and the server's clock (read by \<open>server_default=func.now()\<close>).
\<close>

record database =
  rows :: "Document list"
  next_id :: int
  now :: int

section \<open>The SQLAlchemy session, as a unit of work\<close>

text \<open>
  A session collects changes in memory and writes them at \<open>commit\<close>; \<open>rollback\<close>
  drops them. The two kinds of change the source writes are adding a new
  \<open>Document(filename=..., s3_path=...)\<close>, whose status is the column's default, and
  assigning \<open>doc.status\<close> of a loaded row.
  The database itself is taken as reliable: its statements do not raise.
\<close>

datatype pending_op = Add string string | SetStatus int DocumentStatus

record session =
  pending :: "pending_op list"
  is_active :: bool
  closed :: bool

definition SessionLocal :: session where
  "SessionLocal = \<lparr>pending = [], is_active = True, closed = False\<rparr>"

fun flush_op :: "database \<Rightarrow> pending_op \<Rightarrow> database" where
  "flush_op d (Add fn key) =
     d\<lparr>rows := rows d @ [\<lparr>doc_id = next_id d, filename = fn, s3_path = key,
                            upload_time = now d, status = QUEUED\<rparr>],
       next_id := next_id d + 1\<rparr>"
| "flush_op d (SetStatus i st) =
     d\<lparr>rows := map (\<lambda>r. if doc_id r = i then r\<lparr>status := st\<rparr> else r) (rows d)\<rparr>"

definition set_status :: "session \<Rightarrow> Document \<Rightarrow> DocumentStatus \<Rightarrow> session" where
  "set_status s doc st = s\<lparr>pending := pending s @ [SetStatus (doc_id doc) st]\<rparr>"

definition commit :: "session \<Rightarrow> database \<Rightarrow> session \<times> database" where
  "commit s d = (s\<lparr>pending := []\<rparr>, foldl flush_op d (pending s))"

definition rollback :: "session \<Rightarrow> session" where
  "rollback s = s\<lparr>pending := [], is_active := True\<rparr>"

definition close :: "session \<Rightarrow> session" where
  "close s = s\<lparr>pending := [], closed := True\<rparr>"

text \<open>\<open>db.query(models.Document).filter(models.Document.id == i).first()\<close>\<close>

definition query_first :: "database \<Rightarrow> int \<Rightarrow> Document option" where
  "query_first d i = find (\<lambda>r. doc_id r = i) (rows d)"

text \<open>The primary-key constraint and its sequence: identifiers are distinct and already issued.\<close>

definition wf_db :: "database \<Rightarrow> bool" where
  "wf_db d \<longleftrightarrow> distinct (map doc_id (rows d)) \<and> list_all (\<lambda>r. doc_id r < next_id d) (rows d)"

definition status_of :: "database \<Rightarrow> int \<Rightarrow> DocumentStatus option" where
  "status_of d i = map_option status (query_first d i)"

section \<open>The world outside the process\<close>

text \<open>
  The object store holds bytes under keys; the broker holds the queue of job arguments.
  Either can be out of order: when \<open>s3_fault\<close> (\<open>broker_fault\<close>) is \<open>Some msg\<close>, every
  call to it raises an exception whose text is \<open>msg\<close>.
\<close>

record world =
  metadata :: database
  objects :: "string \<rightharpoonup> string"
  s3_fault :: "string option"
  queue :: "int list"
  broker_fault :: "string option"

datatype exn =
    HTTPException int string
  | NameError string
  | ValueError string
  | RuntimeError string
  | Exception string

text \<open>What the program does to the outside, in the order it does it.\<close>

datatype event =
    Print string
  | PutObject string
  | PutObjectFailed string
  | GetObject string
  | GetObjectFailed string
  | CreateBucket string
  | Commit database
  | Rollback
  | Close
  | Enqueue int
  | EnqueueFailed string
  | Sleep nat

section \<open>Python's \<open>str\<close> and \<open>int\<close> on integers\<close>

definition digit_char :: "nat \<Rightarrow> char" where
  "digit_char n = char_of (48 + n)"

fun str_nat :: "nat \<Rightarrow> string" where
  "str_nat n = (if n < 10 then [digit_char n] else str_nat (n div 10) @ [digit_char (n mod 10)])"

declare str_nat.simps [simp del]

definition str_int :: "int \<Rightarrow> string" where
  "str_int i = (if i < 0 then CHR ''-'' # str_nat (nat (- i)) else str_nat (nat i))"

text \<open>
  A header value reaches the program decoded as latin-1: every character is one code point
  below 256. These are the code points in that range that Python counts as white space
  and \<open>int\<close> strips from both ends, U+0085 and U+00A0 among them.
\<close>

definition is_space :: "char \<Rightarrow> bool" where
  "is_space c \<longleftrightarrow> c \<in> set [CHR 0x20, CHR 0x09, CHR 0x0A, CHR 0x0B, CHR 0x0C, CHR 0x0D,
                            CHR 0x1C, CHR 0x1D, CHR 0x1E, CHR 0x1F, CHR 0x85, CHR 0xA0]"

definition strip :: "string \<Rightarrow> string" where
  "strip s = rev (dropWhile is_space (rev (dropWhile is_space s)))"

definition is_digit :: "char \<Rightarrow> bool" where
  "is_digit c \<longleftrightarrow> 48 \<le> (of_char c :: nat) \<and> (of_char c :: nat) \<le> 57"

text \<open>
  Decimal digits, with single underscores allowed between digits. The flag says
  whether the previous character was a digit.
\<close>

fun parse_digits :: "string \<Rightarrow> nat \<Rightarrow> bool \<Rightarrow> nat option" where
  "parse_digits [] acc prev = (if prev then Some acc else None)"
| "parse_digits (c # cs) acc prev =
     (if is_digit c then parse_digits cs (acc * 10 + (of_char c - 48)) True
      else if c = CHR ''_'' \<and> prev then parse_digits cs acc False
      else None)"

text \<open>
  \<open>int(s)\<close> on a string: \<open>None\<close> is the \<open>ValueError\<close>. Besides a malformed literal,
  Python refuses a literal of more than \<open>sys.int_max_str_digits\<close> digits (4300 unless
  reconfigured), underscores not counted.
\<close>

definition int_max_str_digits :: nat where
  "int_max_str_digits = 4300"

definition py_int :: "string \<Rightarrow> int option" where
  "py_int s =
     (case strip s of
        [] \<Rightarrow> None
      | c # cs \<Rightarrow>
          (let (sign, ds) = (if c = CHR ''-'' then (- 1, cs)
                             else if c = CHR ''+'' then (1, cs)
                             else (1 :: int, c # cs))
           in if length (filter is_digit ds) > int_max_str_digits then None
              else map_option (\<lambda>n. sign * int n) (parse_digits ds 0 False)))"

section \<open>The object store\<close>

text \<open>
  The bucket name and, further down, the endpoint are read from the environment; the
  model takes the defaults of the two \<open>os.getenv\<close> calls.
\<close>

definition BUCKET_NAME :: string where
  "BUCKET_NAME = ''documents''"

text \<open>
  \<open>minio_client.get_object(Bucket=BUCKET_NAME, Key=key)\<close> followed by
  \<open>response['Body'].read()\<close>: the bytes, or an exception (store out of order, or no such key).
\<close>

definition get_object :: "world \<Rightarrow> string \<Rightarrow> string + string" where
  "get_object w key =
     (case s3_fault w of
        Some msg \<Rightarrow> Inl msg
      | None \<Rightarrow>
          (case objects w key of
             None \<Rightarrow> Inl ''An error occurred (NoSuchKey) when calling the GetObject operation: The specified key does not exist.''
           | Some body \<Rightarrow> Inr body))"

section \<open>The Celery task \<open>process_document\<close> (src/app/main.py)\<close>

text \<open>
  The \<open>finally\<close> block: commit if the session is active, close the session, print.
\<close>

definition finally_block :: "int \<Rightarrow> session \<Rightarrow> world \<Rightarrow> session \<times> world \<times> event list" where
  "finally_block document_id s w =
     (let (s1, w1, tr1) =
            (if is_active s
             then (let (s', d') = commit s (metadata w) in (s', w\<lparr>metadata := d'\<rparr>, [Commit d']))
             else (s, w, []))
      in (close s1, w1,
          tr1 @ [Close,
                 Print (''Database session closed for document '' @ str_int document_id @ ''.'')]))"

text \<open>
  The task returns nothing; the model returns the exception that leaves it (none does:
  the \<open>except Exception\<close> clause catches what the body raises), the session as it is
  left, the world, and the trace.
\<close>

definition process_document :: "int \<Rightarrow> world \<Rightarrow> exn option \<times> session \<times> world \<times> event list" where
  "process_document document_id w =
     (let s0 = SessionLocal in
      case query_first (metadata w) document_id of
        None \<Rightarrow>
          (let tr = [Print (''Document with ID '' @ str_int document_id @ '' not found.'')];
               (s, w', tr') = finally_block document_id s0 w
           in (None, s, w', tr @ tr'))
      | Some doc \<Rightarrow>
          (let s1 = set_status s0 doc PROCESSING;
               (s2, d2) = commit s1 (metadata w);
               w2 = w\<lparr>metadata := d2\<rparr>;
               tr = [Commit d2,
                     Print (''Processing document: '' @ filename doc @ '' (ID: '' @ str_int (doc_id doc) @ '')'')]
           in case get_object w2 (filename doc) of
                Inr file_content \<Rightarrow>
                  (let tr3 = [GetObject (filename doc),
                              Print (''--- Extracted content from '' @ filename doc @ '', ''
                                       @ str_nat (length file_content) @ '' bytes ---'')];
                       s3 = set_status s2 doc PROCESSED;
                       tr4 = [Print (''Finished processing document: '' @ filename doc)];
                       (s, w', tr') = finally_block document_id s3 w2
                   in (None, s, w', tr @ tr3 @ tr4 @ tr'))
              | Inl e \<Rightarrow>
                  (let tr3 = [GetObjectFailed e,
                              Print (''Failed to process document '' @ str_int document_id
                                       @ ''. Error: '' @ e)];
                       s3 = rollback s2;
                       s4 = set_status s3 doc FAILED;
                       (s, w', tr') = finally_block document_id s4 w2
                   in (None, s, w', tr @ tr3 @ [Rollback] @ tr'))))"

text \<open>The states of the database that the task commits, in order.\<close>

fun commits :: "event list \<Rightarrow> database list" where
  "commits [] = []"
| "commits (Commit d # es) = d # commits es"
| "commits (_ # es) = commits es"

section \<open>The HTTP handlers (src/app/main.py)\<close>

record Request =
  headers :: "(string \<times> string) list"

text \<open>An uploaded file: \<open>file.filename\<close> and the bytes of \<open>file.file\<close>.\<close>

record UploadFile =
  file_name :: string
  file_bytes :: string

definition MAX_FILE_SIZE :: int where
  "MAX_FILE_SIZE = 25 * 1024 * 1024"

definition quoted :: "string \<Rightarrow> string" where
  "quoted s = CHR 0x27 # s @ [CHR 0x27]"

text \<open>
  The dependency \<open>get_db\<close>: a fresh session for the handler, closed when the handler is done,
  whether it returned or raised.
\<close>

definition get_db ::
  "(session \<Rightarrow> world \<Rightarrow> 'a \<times> session \<times> world \<times> event list) \<Rightarrow> world
     \<Rightarrow> 'a \<times> session \<times> world \<times> event list" where
  "get_db handler w =
     (let (r, s, w', tr) = handler SessionLocal w in (r, close s, w', tr @ [Close]))"

text \<open>
  \<open>upload_document(file, db)\<close>. The first statement of its body, line 114, evaluates
  \<open>request.headers\<close>. The name \<open>request\<close> is not a parameter of the function, is
  not assigned in it, is not bound at module level (the module imports the class
  \<open>Request\<close> and never binds the lower-case name) and is not a builtin: evaluating it
  raises \<open>NameError\<close> on every call. The statements after it (the two checks on the
  declared length, the write to the object store, the insert and its commit, the
  enqueue) are never executed, so they have no counterpart here.
\<close>

definition upload_document ::
  "UploadFile \<Rightarrow> session \<Rightarrow> world \<Rightarrow> (exn + Document) \<times> session \<times> world \<times> event list" where
  "upload_document file db w =
     (Inl (NameError (''name '' @ quoted ''request'' @ '' is not defined'')), db, w, [])"

definition get_document_status ::
  "int \<Rightarrow> session \<Rightarrow> world \<Rightarrow> (exn + Document) \<times> session \<times> world \<times> event list" where
  "get_document_status document_id db w =
     (case query_first (metadata w) document_id of
        None \<Rightarrow> (Inl (HTTPException 404 ''Document not found''), db, w, [])
      | Some db_document \<Rightarrow> (Inr db_document, db, w, []))"

text \<open>
  The two routes. The framework hands the upload handler the file of the incoming request
  and the session of \<open>get_db\<close>, and nothing else of the request.
\<close>

definition post_upload ::
  "Request \<Rightarrow> UploadFile \<Rightarrow> world \<Rightarrow> (exn + Document) \<times> session \<times> world \<times> event list" where
  "post_upload incoming file w = get_db (upload_document file) w"

definition get_status ::
  "int \<Rightarrow> world \<Rightarrow> (exn + Document) \<times> session \<times> world \<times> event list" where
  "get_status document_id w = get_db (get_document_status document_id) w"

subsection \<open>Responses (src/app/schemas.py and the framework)\<close>

datatype json = JStr string | JInt int | JObj "(string \<times> json) list"

text \<open>
  \<open>schemas.Document\<close>, read from the row (\<open>orm_mode\<close>): the field of the base class first.
\<close>

definition document_json :: "Document \<Rightarrow> json" where
  "document_json d =
     JObj [(''filename'', JStr (filename d)),
           (''id'', JInt (doc_id d)),
           (''s3_path'', JStr (s3_path d)),
           (''upload_time'', JInt (upload_time d)),
           (''status'', JStr (status_value (status d)))]"

record response =
  status_code :: int
  body :: json

text \<open>
  A returned row is a 200 with the schema's JSON, an \<open>HTTPException\<close> is its status code
  with \<open>{"detail": ...}\<close>, any other exception is the server's 500.
\<close>

fun respond :: "exn + Document \<Rightarrow> response" where
  "respond (Inr d) = \<lparr>status_code = 200, body = document_json d\<rparr>"
| "respond (Inl (HTTPException c m)) = \<lparr>status_code = c, body = JObj [(''detail'', JStr m)]\<rparr>"
| "respond (Inl _) = \<lparr>status_code = 500, body = JStr ''Internal Server Error''\<rparr>"

section \<open>Startup: \<open>lifespan\<close> (src/app/main.py)\<close>

text \<open>
  What one pass of the loop meets: \<open>boto3.client\<close> raises; or it returns a client and
  \<open>head_bucket\<close> succeeds, raises a \<open>ClientError\<close> with an error code, or raises another
  exception (no connection, no credentials).
\<close>

datatype probe =
    ClientFails string
  | HeadOk
  | HeadClientError string string
  | HeadFails string

definition retries :: nat where
  "retries = 5"

definition delay_seconds :: nat where
  "delay_seconds = 2"

definition endpoint_url :: string where
  "endpoint_url = ''http://minio:9000''"

definition check_mark :: string where
  "check_mark = [CHR 0xE2, CHR 0x9C, CHR 0x85]"

datatype loop_exit = Broke | Exhausted | Raised exn

definition retry_text :: "nat \<Rightarrow> string" where
  "retry_text i = ''Attempt '' @ str_nat (i + 1) @ ''/'' @ str_nat retries"

text \<open>
  The loop \<open>for i in range(retries)\<close>, from pass \<open>i\<close> with \<open>n\<close> passes left. It carries
  \<open>minio_client\<close> (\<open>None\<close>, or the client last built) and returns how it ended.
  The second argument is what \<open>create_bucket\<close> raises, if it does.
\<close>

fun retry_loop ::
  "(nat \<Rightarrow> probe) \<Rightarrow> string option \<Rightarrow> nat \<Rightarrow> nat \<Rightarrow> string option
     \<Rightarrow> loop_exit \<times> string option \<times> event list" where
  "retry_loop env cf i 0 minio_client = (Exhausted, minio_client, [])"
| "retry_loop env cf i (Suc n) minio_client =
     (case env i of
        ClientFails e \<Rightarrow>
          (let (x, mc, tr) = retry_loop env cf (Suc i) n minio_client
           in (x, mc,
               [Print (retry_text i @ '' failed to connect to MinIO: '' @ e @ ''. Retrying in ''
                         @ str_nat delay_seconds @ ''s...''),
                Sleep delay_seconds] @ tr))
      | HeadOk \<Rightarrow>
          (Broke, Some endpoint_url,
           [Print (check_mark @ '' Successfully connected to MinIO. Bucket ''
                     @ quoted BUCKET_NAME @ '' found.'')])
      | HeadClientError code e \<Rightarrow>
          if code = ''404'' then
            (case cf of
               None \<Rightarrow>
                 (Broke, Some endpoint_url,
                  [Print (''Bucket '' @ quoted BUCKET_NAME @ '' not found. Creating it...''),
                   CreateBucket BUCKET_NAME,
                   Print (check_mark @ '' Bucket '' @ quoted BUCKET_NAME
                            @ '' created. Connection successful.'')])
             | Some m \<Rightarrow>
                 (Raised (Exception m), Some endpoint_url,
                  [Print (''Bucket '' @ quoted BUCKET_NAME @ '' not found. Creating it...'')]))
          else
            (let (x, mc, tr) = retry_loop env cf (Suc i) n (Some endpoint_url)
             in (x, mc,
                 [Print (retry_text i @ '' failed with a ClientError: '' @ e @ ''. Retrying in ''
                           @ str_nat delay_seconds @ ''s...''),
                  Sleep delay_seconds] @ tr))
      | HeadFails e \<Rightarrow>
          (let (x, mc, tr) = retry_loop env cf (Suc i) n (Some endpoint_url)
           in (x, mc,
               [Print (retry_text i @ '' failed to connect to MinIO: '' @ e @ ''. Retrying in ''
                         @ str_nat delay_seconds @ ''s...''),
                Sleep delay_seconds] @ tr)))"

text \<open>
  \<open>lifespan\<close> up to its \<open>yield\<close>: the exception that aborts startup, or \<open>None\<close> when
  the \<open>yield\<close> is reached and the application starts to serve; whether the loop left
  by \<open>break\<close> (a bucket was seen or created); and the trace.
\<close>

definition lifespan :: "(nat \<Rightarrow> probe) \<Rightarrow> string option \<Rightarrow> exn option \<times> bool \<times> event list" where
  "lifespan env cf =
     (let tr0 = [Print ''Application startup: Initializing MinIO connection...'',
                 Print (''Attempting to connect to MinIO at: '' @ endpoint_url)];
          (x, minio_client, tr) = retry_loop env cf 0 retries None
      in case x of
           Raised e \<Rightarrow> (Some e, False, tr0 @ tr)
         | _ \<Rightarrow>
            if minio_client = None then
              (Some (RuntimeError ''Could not connect to MinIO after several retries.''),
               False, tr0 @ tr)
            else (None, x = Broke, tr0 @ tr))"

fun sleeps :: "event list \<Rightarrow> nat list" where
  "sleeps [] = []"
| "sleeps (Sleep n # es) = n # sleeps es"
| "sleeps (_ # es) = sleeps es"

section \<open>Example states\<close>

text \<open>
  A database with one queued document \<open>a.txt\<close> whose ten bytes are in the object store,
  and its job on the queue.
\<close>

definition example_doc :: Document where
  "example_doc =
     \<lparr>doc_id = 1, filename = ''a.txt'', s3_path = ''a.txt'', upload_time = 7, status = QUEUED\<rparr>"

definition example_world :: world where
  "example_world =
     \<lparr>metadata = \<lparr>rows = [example_doc], next_id = 2, now = 9\<rparr>,
      objects = [''a.txt'' \<mapsto> ''0123456789''], s3_fault = None, queue = [1],
      broker_fault = None\<rparr>"

text \<open>An upload of the ten bytes of \<open>b.txt\<close>, with and without a declared length.\<close>

definition example_file :: UploadFile where
  "example_file = \<lparr>file_name = ''b.txt'', file_bytes = ''0123456789''\<rparr>"

definition example_request :: Request where
  "example_request =
     \<lparr>headers = [(''content-type'', ''multipart/form-data; boundary=x''),
                 (''content-length'', ''197'')]\<rparr>"

definition chunked_request :: Request where
  "chunked_request =
     \<lparr>headers = [(''content-type'', ''multipart/form-data; boundary=x''),
                 (''transfer-encoding'', ''chunked'')]\<rparr>"

definition oversized_request :: Request where
  "oversized_request =
     \<lparr>headers = [(''content-type'', ''multipart/form-data; boundary=x''),
                 (''content-length'', ''300000000'')]\<rparr>"



text \<open>
  The document \<open>a.txt\<close> already processed, and its bytes since deleted from the
  object store.
\<close>

definition processed_world :: world where
  "processed_world =
     \<lparr>metadata = \<lparr>rows = [example_doc\<lparr>status := PROCESSED\<rparr>], next_id = 2, now = 9\<rparr>,
      objects = Map.empty, s3_fault = None, queue = [], broker_fault = None\<rparr>"

section \<open>Properties\<close>


subsection \<open>The task\<close>

lemma find_set_status:
  "find (\<lambda>r. doc_id r = i) (map (\<lambda>r. if doc_id r = j then r\<lparr>status := st\<rparr> else r) xs)
     = map_option (\<lambda>r. if doc_id r = j then r\<lparr>status := st\<rparr> else r) (find (\<lambda>r. doc_id r = i) xs)"
  by (induction xs) simp_all

lemma query_first_id: "query_first d i = Some doc \<Longrightarrow> doc_id doc = i"
  by (auto simp: query_first_def find_Some_iff)

lemma status_of_set_status:
  "status_of (flush_op d (SetStatus j st)) i
     = (if i = j then map_option (\<lambda>_. st) (status_of d i) else status_of d i)"
proof (cases "query_first d i")
  case None
  then show ?thesis by (auto simp: status_of_def query_first_def find_set_status)
next
  case (Some doc)
  then have "doc_id doc = i" by (rule query_first_id)
  with Some show ?thesis by (auto simp: status_of_def query_first_def find_set_status)
qed

lemma get_object_metadata [simp]: "get_object (w\<lparr>metadata := d\<rparr>) k = get_object w k"
  by (simp add: get_object_def split: option.splits)

lemma finally_block_active:
  "is_active s \<Longrightarrow>
   finally_block i s w =
     (s\<lparr>pending := [], closed := True\<rparr>, w\<lparr>metadata := foldl flush_op (metadata w) (pending s)\<rparr>,
      [Commit (foldl flush_op (metadata w) (pending s)), Close,
       Print (''Database session closed for document '' @ str_int i @ ''.'')])"
  by (simp add: finally_block_def commit_def close_def)

lemma process_document_none:
  "query_first (metadata w) document_id = None \<Longrightarrow>
   process_document document_id w =
     (None, SessionLocal\<lparr>closed := True\<rparr>, w,
      [Print (''Document with ID '' @ str_int document_id @ '' not found.''),
       Commit (metadata w), Close,
       Print (''Database session closed for document '' @ str_int document_id @ ''.'')])"
  by (simp add: process_document_def finally_block_active SessionLocal_def)

lemma process_document_ok:
  assumes "query_first (metadata w) document_id = Some doc"
      and "get_object w (filename doc) = Inr content"
  shows "process_document document_id w =
     (None, SessionLocal\<lparr>closed := True\<rparr>,
      w\<lparr>metadata := flush_op (flush_op (metadata w) (SetStatus document_id PROCESSING))
                               (SetStatus document_id PROCESSED)\<rparr>,
      [Commit (flush_op (metadata w) (SetStatus document_id PROCESSING)),
       Print (''Processing document: '' @ filename doc @ '' (ID: '' @ str_int document_id @ '')''),
       GetObject (filename doc),
       Print (''--- Extracted content from '' @ filename doc @ '', ''
                @ str_nat (length content) @ '' bytes ---''),
       Print (''Finished processing document: '' @ filename doc),
       Commit (flush_op (flush_op (metadata w) (SetStatus document_id PROCESSING))
                        (SetStatus document_id PROCESSED)),
       Close,
       Print (''Database session closed for document '' @ str_int document_id @ ''.'')])"
proof -
  have "doc_id doc = document_id" using assms(1) by (rule query_first_id)
  then show ?thesis using assms
    by (simp add: process_document_def finally_block_active SessionLocal_def set_status_def
        commit_def)
qed

lemma process_document_failed:
  assumes "query_first (metadata w) document_id = Some doc"
      and "get_object w (filename doc) = Inl err"
  shows "process_document document_id w =
     (None, SessionLocal\<lparr>closed := True\<rparr>,
      w\<lparr>metadata := flush_op (flush_op (metadata w) (SetStatus document_id PROCESSING))
                               (SetStatus document_id FAILED)\<rparr>,
      [Commit (flush_op (metadata w) (SetStatus document_id PROCESSING)),
       Print (''Processing document: '' @ filename doc @ '' (ID: '' @ str_int document_id @ '')''),
       GetObjectFailed err,
       Print (''Failed to process document '' @ str_int document_id @ ''. Error: '' @ err),
       Rollback,
       Commit (flush_op (flush_op (metadata w) (SetStatus document_id PROCESSING))
                        (SetStatus document_id FAILED)),
       Close,
       Print (''Database session closed for document '' @ str_int document_id @ ''.'')])"
proof -
  have "doc_id doc = document_id" using assms(1) by (rule query_first_id)
  then show ?thesis using assms
    by (simp add: process_document_def finally_block_active SessionLocal_def set_status_def
        commit_def rollback_def)
qed


lemma status_of_found: "query_first d i = Some doc \<Longrightarrow> status_of d i = Some (status doc)"
  by (simp add: status_of_def)

text \<open>
  C4. When the row is found, the task raises nothing and leaves the session closed. If the
  fetch returns the bytes, the last state committed has the row at \<open>PROCESSED\<close> and
  no rollback happened; if the fetch raises, the session is rolled back and the one commit
  after the rollback, which is the last, has the row at \<open>FAILED\<close>.
\<close>

theorem process_document_outcome:
  assumes "query_first (metadata w) document_id = Some doc"
  shows "case process_document document_id w of (e, s, w', tr) \<Rightarrow>
           e = None \<and> closed s \<and> pending s = [] \<and> last (commits tr) = metadata w' \<and>
           (case get_object w (filename doc) of
              Inr content \<Rightarrow>
                status_of (metadata w') document_id = Some PROCESSED \<and> Rollback \<notin> set tr
            | Inl err \<Rightarrow>
                status_of (metadata w') document_id = Some FAILED \<and> Rollback \<in> set tr \<and>
                commits (dropWhile (\<lambda>ev. ev \<noteq> Rollback) tr) = [metadata w'])"
proof (cases "get_object w (filename doc)")
  case (Inl err)
  show ?thesis
    using status_of_found [OF assms] Inl
    by (simp add: process_document_failed [OF assms Inl] status_of_set_status SessionLocal_def
        del: flush_op.simps)
next
  case (Inr content)
  show ?thesis
    using status_of_found [OF assms] Inr
    by (simp add: process_document_ok [OF assms Inr] status_of_set_status SessionLocal_def
        del: flush_op.simps)
qed

lemma example_lookup: "query_first (metadata example_world) 1 = Some example_doc"
  by (simp add: example_world_def example_doc_def query_first_def)

theorem process_document_outcome_witness:
  "query_first (metadata example_world) 1 = Some example_doc \<and>
   (case process_document 1 example_world of (e, s, w', tr) \<Rightarrow>
      e = None \<and> closed s \<and> status_of (metadata w') 1 = Some PROCESSED) \<and>
   (case process_document 1 (example_world\<lparr>objects := Map.empty\<rparr>) of (e, s, w', tr) \<Rightarrow>
      e = None \<and> closed s \<and> status_of (metadata w') 1 = Some FAILED \<and> Rollback \<in> set tr)"
proof -
  have a: "query_first (metadata example_world) 1 = Some example_doc"
    by (rule example_lookup)
  have b: "query_first (metadata (example_world\<lparr>objects := Map.empty\<rparr>)) 1 = Some example_doc"
    using a by simp
  have c: "get_object example_world (filename example_doc) = Inr ''0123456789''"
    by (simp add: get_object_def example_world_def example_doc_def)
  have d: "get_object (example_world\<lparr>objects := Map.empty\<rparr>) (filename example_doc)
             = Inl ''An error occurred (NoSuchKey) when calling the GetObject operation: The specified key does not exist.''"
    by (simp add: get_object_def example_world_def example_doc_def)
  show ?thesis
    using a process_document_outcome [OF a] process_document_outcome [OF b]
    by (auto simp: c d split: prod.splits)
qed

text \<open>
  C8. When no row has the identifier, the task prints that the document was not found,
  raises nothing, and leaves the database, the object store and the queue as they were:
  no row is created and the identifier still has no status.
\<close>

theorem process_document_unknown_id:
  assumes "query_first (metadata w) document_id = None"
  shows "case process_document document_id w of (e, s, w', tr) \<Rightarrow>
           e = None \<and> w' = w \<and> closed s \<and>
           hd tr = Print (''Document with ID '' @ str_int document_id @ '' not found.'') \<and>
           commits tr = [metadata w] \<and> status_of (metadata w') document_id = None"
  using assms by (simp add: process_document_none SessionLocal_def status_of_def)

theorem process_document_unknown_id_witness:
  "query_first (metadata example_world) 5 = None \<and>
   (case process_document 5 example_world of (e, s, w', tr) \<Rightarrow>
      e = None \<and> w' = example_world \<and> hd tr = Print ''Document with ID 5 not found.'')"
proof -
  have a: "query_first (metadata example_world) 5 = None"
    by (simp add: example_world_def example_doc_def query_first_def)
  have b: "str_int 5 = ''5''"
    by code_simp
  show ?thesis
    using a process_document_unknown_id [OF a] by (auto simp: b split: prod.splits)
qed


subsection \<open>The upload handler\<close>


lemma py_int_300000000: "py_int ''300000000'' = Some 300000000"
  by (simp add: py_int_def strip_def is_space_def is_digit_def int_max_str_digits_def)

lemma example_wf: "wf_db (metadata example_world)"
  by (simp add: wf_db_def example_world_def example_doc_def)



lemma post_upload_run:
  "post_upload incoming file w =
     (Inl (NameError (''name '' @ quoted ''request'' @ '' is not defined'')),
      close SessionLocal, w, [Close])"
  by (simp add: post_upload_def get_db_def upload_document_def)




text \<open>
  C2. The route as the module has it, on an upload sent with chunked transfer encoding
  and no Content-Length header: the handler stops at the unbound name \<open>request\<close>, so
  the answer is the server's 500 and not the 411 of the next line. Nothing is written.
\<close>

theorem post_upload_without_content_length:
  "map_of (headers chunked_request) ''content-length'' = None \<and>
   post_upload chunked_request file w =
     (Inl (NameError (''name '' @ quoted ''request'' @ '' is not defined'')),
      close SessionLocal, w, [Close]) \<and>
   status_code (respond (fst (post_upload chunked_request file w))) = 500"
  by (simp add: post_upload_def get_db_def upload_document_def chunked_request_def)

text \<open>
  C7. The route as the module has it, on an upload that declares 300000000 bytes, more
  than \<open>MAX_FILE_SIZE\<close>: again the unbound name \<open>request\<close> ends the handler before
  the size is compared, so the answer is the server's 500 with its fixed text and not the
  413 with the limit. No row is created.
\<close>

theorem post_upload_oversized:
  "map_of (headers oversized_request) ''content-length'' = Some ''300000000'' \<and>
   py_int ''300000000'' = Some 300000000 \<and> 300000000 > MAX_FILE_SIZE \<and>
   respond (fst (post_upload oversized_request file w))
     = \<lparr>status_code = 500, body = JStr ''Internal Server Error''\<rparr> \<and>
   fst (snd (snd (post_upload oversized_request file w))) = w"
  by (simp add: post_upload_def get_db_def upload_document_def oversized_request_def
      py_int_300000000 MAX_FILE_SIZE_def)

subsection \<open>Startup\<close>

text \<open>
  C3. The object store cannot be reached on any pass: \<open>boto3.client\<close> builds a client
  each time and \<open>head_bucket\<close> raises. The loop sleeps two seconds after each of its five
  passes and ends; \<open>minio_client\<close> is the last client built, not \<open>None\<close>, so no
  \<open>RuntimeError\<close> is raised and \<open>lifespan\<close> reaches its \<open>yield\<close> without having left
  the loop by \<open>break\<close>.
\<close>

theorem lifespan_unreachable_store:
  "fst (lifespan (\<lambda>i. HeadFails m) cf) = None \<and>
   \<not> fst (snd (lifespan (\<lambda>i. HeadFails m) cf)) \<and>
   sleeps (snd (snd (lifespan (\<lambda>i. HeadFails m) cf))) = [2, 2, 2, 2, 2]"
  by (simp add: lifespan_def retries_def eval_nat_numeral delay_seconds_def)

text \<open>Whatever the passes meet, the loop sleeps at most five times, two seconds each.\<close>

lemma retry_loop_sleeps:
  "length (sleeps (snd (snd (retry_loop env cf i n mc)))) \<le> n \<and>
   set (sleeps (snd (snd (retry_loop env cf i n mc)))) \<subseteq> {delay_seconds}"
proof (induction n arbitrary: i mc)
  case 0
  then show ?case by simp
next
  case (Suc n)
  show ?case
  proof (cases "env i")
    case (ClientFails e)
    then show ?thesis using Suc [of "Suc i" mc]
      by (simp add: split_beta)
  next
    case HeadOk
    then show ?thesis by simp
  next
    case (HeadClientError code e)
    then show ?thesis using Suc [of "Suc i" "Some endpoint_url"]
      by (simp add: split_beta split: option.splits)
  next
    case (HeadFails e)
    then show ?thesis using Suc [of "Suc i" "Some endpoint_url"]
      by (simp add: split_beta)
  qed
qed

lemma lifespan_sleeps:
  "length (sleeps (snd (snd (lifespan env cf)))) \<le> retries \<and>
   set (sleeps (snd (snd (lifespan env cf)))) \<subseteq> {delay_seconds}"
proof -
  obtain x mc tr where run: "retry_loop env cf 0 retries None = (x, mc, tr)"
    by (cases "retry_loop env cf 0 retries None") auto
  show ?thesis
    using retry_loop_sleeps [of env cf 0 retries None]
    by (simp add: lifespan_def run Let_def split: loop_exit.splits)
qed

text \<open>Startup is aborted with the \<open>RuntimeError\<close> when no pass gets as far as a client.\<close>

lemma lifespan_no_client:
  "fst (lifespan (\<lambda>i. ClientFails m) cf)
     = Some (RuntimeError ''Could not connect to MinIO after several retries.'')"
  by (simp add: lifespan_def retries_def eval_nat_numeral)

subsection \<open>The status handler\<close>

lemma find_by_distinct_id:
  "distinct (map doc_id xs) \<Longrightarrow> r \<in> set xs \<Longrightarrow> find (\<lambda>x. doc_id x = doc_id r) xs = Some r"
proof (induction xs)
  case Nil
  then show ?case by simp
next
  case (Cons x xs)
  show ?case
  proof (cases "x = r")
    case True
    then show ?thesis by simp
  next
    case False
    with Cons.prems have "r \<in> set xs" "doc_id x \<noteq> doc_id r" by force+
    with Cons show ?thesis by simp
  qed
qed

lemma query_first_unique:
  "wf_db d \<Longrightarrow> r \<in> set (rows d) \<Longrightarrow> query_first d (doc_id r) = Some r"
  by (simp add: wf_db_def query_first_def find_by_distinct_id)

lemma get_status_run:
  "get_status document_id w =
     (case query_first (metadata w) document_id of
        None \<Rightarrow> (Inl (HTTPException 404 ''Document not found''), close SessionLocal, w, [Close])
      | Some d \<Rightarrow> (Inr d, close SessionLocal, w, [Close]))"
  by (simp add: get_status_def get_db_def get_document_status_def split: option.splits)

text \<open>
  C9. Under the primary-key constraint, the status route leaves the world as it was and
  commits nothing; for a stored row with the identifier it returns that row, answered as
  200 with the five fields of the schema, and when no row has the identifier it answers
  404 with the detail \<open>Document not found\<close>.
\<close>

theorem get_status_found_or_404:
  assumes "wf_db (metadata w)"
  shows "case get_status document_id w of (r, s, w', tr) \<Rightarrow>
           w' = w \<and> commits tr = [] \<and>
           (\<forall>d \<in> set (rows (metadata w)). doc_id d = document_id \<longrightarrow>
              r = Inr d \<and> respond r = \<lparr>status_code = 200, body = document_json d\<rparr>) \<and>
           ((\<forall>d \<in> set (rows (metadata w)). doc_id d \<noteq> document_id) \<longrightarrow>
              respond r = \<lparr>status_code = 404,
                            body = JObj [(''detail'', JStr ''Document not found'')]\<rparr>)"
proof (cases "query_first (metadata w) document_id")
  case None
  then have "\<forall>d \<in> set (rows (metadata w)). doc_id d \<noteq> document_id"
    by (auto simp: query_first_def find_None_iff)
  with None show ?thesis by (simp add: get_status_run)
next
  case (Some row)
  have same: "d = row" if "d \<in> set (rows (metadata w))" and "doc_id d = document_id" for d
    using query_first_unique [OF assms that(1)] that(2) Some by simp
  have stored: "row \<in> set (rows (metadata w))" and id: "doc_id row = document_id"
    using Some by (auto simp: query_first_def find_Some_iff)
  have run: "get_status document_id w = (Inr row, close SessionLocal, w, [Close])"
    using Some by (simp add: get_status_run)
  have found: "\<forall>d \<in> set (rows (metadata w)). doc_id d = document_id \<longrightarrow>
                 Inr row = (Inr d :: exn + Document) \<and>
                 respond (Inr row) = \<lparr>status_code = 200, body = document_json d\<rparr>"
    using same by auto
  have present: "\<not> (\<forall>d \<in> set (rows (metadata w)). doc_id d \<noteq> document_id)"
    using stored id by blast
  show ?thesis
    unfolding run using found present by simp
qed

theorem get_status_found_or_404_witness:
  "wf_db (metadata example_world) \<and>
   respond (fst (get_status 1 example_world))
     = \<lparr>status_code = 200,
        body = JObj [(''filename'', JStr ''a.txt''), (''id'', JInt 1), (''s3_path'', JStr ''a.txt''),
                     (''upload_time'', JInt 7), (''status'', JStr ''queued'')]\<rparr> \<and>
   respond (fst (get_status 99999 example_world))
     = \<lparr>status_code = 404, body = JObj [(''detail'', JStr ''Document not found'')]\<rparr> \<and>
   fst (snd (snd (get_status 1 example_world))) = example_world"
proof -
  have a: "example_doc \<in> set (rows (metadata example_world))" "doc_id example_doc = 1"
    by (simp_all add: example_world_def example_doc_def)
  have b: "\<forall>d \<in> set (rows (metadata example_world)). doc_id d \<noteq> 99999"
    by (simp add: example_world_def example_doc_def)
  have c: "document_json example_doc
             = JObj [(''filename'', JStr ''a.txt''), (''id'', JInt 1), (''s3_path'', JStr ''a.txt''),
                     (''upload_time'', JInt 7), (''status'', JStr ''queued'')]"
    by (simp add: document_json_def example_doc_def)
  show ?thesis
    using example_wf a b c
      get_status_found_or_404 [OF example_wf, of 1]
      get_status_found_or_404 [OF example_wf, of 99999]
    by (auto split: prod.splits)
qed

subsection \<open>The life of a status\<close>

lemma ids_set_status:
  "map doc_id (rows (flush_op d (SetStatus i st))) = map doc_id (rows d)"
  by (induction "rows d" arbitrary: d) (simp_all add: comp_def cong: map_cong)

lemma wf_db_ids:
  "wf_db d \<longleftrightarrow> distinct (map doc_id (rows d)) \<and> (\<forall>k \<in> set (map doc_id (rows d)). k < next_id d)"
  by (auto simp: wf_db_def list_all_iff)

lemma wf_db_flush_op: "wf_db d \<Longrightarrow> wf_db (flush_op d op)"
proof (cases op)
  case (Add fn key)
  assume "wf_db d"
  then show ?thesis unfolding wf_db_ids using Add by auto
next
  case (SetStatus i st)
  assume "wf_db d"
  then show ?thesis unfolding wf_db_ids SetStatus ids_set_status by simp
qed

lemma other_worker_keeps_status:
  assumes "j \<noteq> i"
  shows "case process_document j w of (e, s, w', tr) \<Rightarrow>
           status_of (metadata w') i = status_of (metadata w) i \<and>
           (\<forall>d \<in> set (commits tr). status_of d i = status_of (metadata w) i)"
proof (cases "query_first (metadata w) j")
  case None
  then show ?thesis by (simp add: process_document_none)
next
  case (Some doc)
  show ?thesis
  proof (cases "get_object w (filename doc)")
    case (Inl err)
    show ?thesis using assms
      by (simp add: process_document_failed [OF Some Inl] status_of_set_status del: flush_op.simps)
  next
    case (Inr content)
    show ?thesis using assms
      by (simp add: process_document_ok [OF Some Inr] status_of_set_status del: flush_op.simps)
  qed
qed

lemma own_worker_statuses:
  assumes "status_of (metadata w) i = Some st"
  shows "case process_document i w of (e, s, w', tr) \<Rightarrow>
           (map (\<lambda>d. status_of d i) (commits tr) = [Some PROCESSING, Some PROCESSED] \<or>
            map (\<lambda>d. status_of d i) (commits tr) = [Some PROCESSING, Some FAILED]) \<and>
           last (commits tr) = metadata w'"
proof -
  obtain doc where found: "query_first (metadata w) i = Some doc"
    using assms by (auto simp: status_of_def)
  show ?thesis
  proof (cases "get_object w (filename doc)")
    case (Inl err)
    show ?thesis using assms
      by (simp add: process_document_failed [OF found Inl] status_of_set_status del: flush_op.simps)
  next
    case (Inr content)
    show ?thesis using assms
      by (simp add: process_document_ok [OF found Inr] status_of_set_status del: flush_op.simps)
  qed
qed

text \<open>
  C1, as stated, fails: the task does not look at the status it finds. A second run for
  a document that is \<open>PROCESSED\<close>, whose bytes are gone from the object store, commits
  \<open>PROCESSING\<close> and leaves the row \<open>FAILED\<close>.
\<close>

theorem terminal_status_changed:
  "status_of (metadata processed_world) 1 = Some PROCESSED \<and>
   map (\<lambda>d. status_of d 1) (commits (snd (snd (snd (process_document 1 processed_world)))))
     = [Some PROCESSING, Some FAILED] \<and>
   status_of (metadata (fst (snd (snd (process_document 1 processed_world))))) 1 = Some FAILED"
proof -
  have found: "query_first (metadata processed_world) 1 = Some (example_doc\<lparr>status := PROCESSED\<rparr>)"
    by (simp add: processed_world_def example_doc_def query_first_def)
  have gone: "get_object processed_world (filename (example_doc\<lparr>status := PROCESSED\<rparr>))
                = Inl ''An error occurred (NoSuchKey) when calling the GetObject operation: The specified key does not exist.''"
    by (simp add: get_object_def processed_world_def)
  have before: "status_of (metadata processed_world) 1 = Some PROCESSED"
    using found by (simp add: status_of_def)
  show ?thesis
    using before
    by (simp add: process_document_failed [OF found gone] status_of_set_status
        del: flush_op.simps)
qed

text \<open>
  C1, amended. Take a row with identifier \<open>i\<close> and status \<open>st\<close>. An upload and
  a status query leave the world, and so the status, as it is; a run of the task for
  another identifier leaves the status as it is in every state it commits. A run of the
  task for \<open>i\<close> commits twice, first with the row at \<open>PROCESSING\<close>, then with the row
  at \<open>PROCESSED\<close> or at \<open>FAILED\<close>, whatever \<open>st\<close> was.
\<close>

theorem status_changed_only_by_worker:
  assumes "status_of (metadata w) i = Some st"
  shows "(case post_upload incoming file w of (r, s, w', tr) \<Rightarrow>
            w' = w \<and> status_of (metadata w') i = Some st) \<and>
         (case get_status j w of (r, s, w', tr) \<Rightarrow> w' = w) \<and>
         (j \<noteq> i \<longrightarrow>
            (case process_document j w of (e, s, w', tr) \<Rightarrow>
               status_of (metadata w') i = Some st \<and>
               (\<forall>d \<in> set (commits tr). status_of d i = Some st))) \<and>
         (case process_document i w of (e, s, w', tr) \<Rightarrow>
            (map (\<lambda>d. status_of d i) (commits tr) = [Some PROCESSING, Some PROCESSED] \<or>
             map (\<lambda>d. status_of d i) (commits tr) = [Some PROCESSING, Some FAILED]) \<and>
            last (commits tr) = metadata w')"
proof -
  have upload: "case post_upload incoming file w of (r, s, w', tr) \<Rightarrow>
            w' = w \<and> status_of (metadata w') i = Some st"
    using assms by (simp add: post_upload_run)
  have query: "case get_status j w of (r, s, w', tr) \<Rightarrow> w' = w"
    by (simp add: get_status_run split: option.splits)
  have other: "j \<noteq> i \<longrightarrow>
            (case process_document j w of (e, s, w', tr) \<Rightarrow>
               status_of (metadata w') i = Some st \<and>
               (\<forall>d \<in> set (commits tr). status_of d i = Some st))"
  proof
    assume "j \<noteq> i"
    from other_worker_keeps_status [OF this, of w] assms show
      "case process_document j w of (e, s, w', tr) \<Rightarrow>
         status_of (metadata w') i = Some st \<and>
         (\<forall>d \<in> set (commits tr). status_of d i = Some st)"
      by (simp split: prod.splits)
  qed
  from upload query other own_worker_statuses [OF assms] show ?thesis by blast
qed

theorem status_changed_only_by_worker_witness:
  "status_of (metadata example_world) 1 = Some QUEUED \<and>
   (case post_upload example_request example_file example_world of
      (r, s, w', tr) \<Rightarrow> status_of (metadata w') 1 = Some QUEUED) \<and>
   (case process_document 5 example_world of
      (e, s, w', tr) \<Rightarrow> status_of (metadata w') 1 = Some QUEUED) \<and>
   (case process_document 1 example_world of
      (e, s, w', tr) \<Rightarrow>
        map (\<lambda>d. status_of d 1) (commits tr) = [Some PROCESSING, Some PROCESSED])"
proof -
  have a: "status_of (metadata example_world) 1 = Some QUEUED"
    by (simp add: status_of_def example_lookup example_doc_def)
  have b: "(5::int) \<noteq> 1" by simp
  have c: "get_object example_world (filename example_doc) = Inr ''0123456789''"
    by (simp add: get_object_def example_world_def example_doc_def)
  have d: "case process_document 1 example_world of
             (e, s, w', tr) \<Rightarrow>
               map (\<lambda>d. status_of d 1) (commits tr) \<noteq> [Some PROCESSING, Some FAILED]"
    using a
    by (simp add: process_document_ok [OF example_lookup c] status_of_set_status
        del: flush_op.simps)
  show ?thesis
    using a b d
      status_changed_only_by_worker [OF a, where j = 5 and incoming = example_request
        and ?file = example_file]
    by (auto split: prod.splits)
qed

end
